theory Spec2Isabelle
  imports Main "HOL-Library.AList"
begin

section \<open>Environments module: update use-case and controller handlers\<close>

text \<open>
  The development embeds two TypeScript sources:
  \<^item> \<^verbatim>\<open>usecases/update-environment/update-environment.usecase.ts\<close>
    (class \<^verbatim>\<open>UpdateEnvironment\<close>, method \<^verbatim>\<open>execute\<close>);
  \<^item> \<^verbatim>\<open>environments.controller.ts\<close> (class \<^verbatim>\<open>EnvironmentsController\<close>,
    handlers \<^verbatim>\<open>updateMyEnvironment\<close>, \<^verbatim>\<open>getOrganizationApiKeys\<close>,
    \<^verbatim>\<open>regenerateOrganizationApiKeys\<close>, \<^verbatim>\<open>updateWidgetSettings\<close>).

  Naming. An Isabelle name cannot start with an underscore, and two records of one
  theory cannot share a field name, so every field carries a prefix naming its class:
  \<open>uec_\<close> (UpdateEnvironmentCommand), \<open>gak_\<close> (GetApiKeysCommand),
  \<open>uws_\<close> (UpdateWidgetSettingsCommand), \<open>jwt_\<close> (IJwtPayload),
  \<open>req_\<close> (UpdateEnvironmentRequestDto), \<open>wreq_\<close> (UpdateWidgetSettingsRequestDto).
  The source's \<^verbatim>\<open>_id\<close> is \<open>uec_id\<close> / \<open>jwt_id\<close> and its
  \<^verbatim>\<open>_parentId\<close> is \<open>uec_parentId\<close>. Object keys keep their source
  spelling as strings: \<open>''_id''\<close>, \<open>''name''\<close>, \<open>''_parentId''\<close>,
  \<open>''identifier''\<close>.
\<close>

subsection \<open>Values and objects\<close>

text \<open>
  An optional string property (\<^verbatim>\<open>name?: string\<close>) is a \<open>string option\<close>:
  \<open>None\<close> is the absent value (\<^verbatim>\<open>undefined\<close>), \<open>Some s\<close> the string \<open>s\<close>.
  JavaScript truthiness on such a value: absent is falsy, the empty string is falsy,
  every other string is truthy.
\<close>

fun truthy :: "string option \<Rightarrow> bool" where
  "truthy None = False"
| "truthy (Some s) = (s \<noteq> '''')"

text \<open>
  The strict comparison \<^verbatim>\<open>v !== ''\<close>: it holds for the absent value and for every
  string but the empty one.
\<close>

definition strict_neq_empty :: "string option \<Rightarrow> bool" where
  "strict_neq_empty v = (v \<noteq> Some '''')"

text \<open>
  An object literal with string values is the list of its key/value pairs in insertion
  order; a property assignment \<^verbatim>\<open>obj.k = v\<close> is \<^const>\<open>AList.update\<close> (it
  overwrites an existing key and appends a new one). Both the store filter and the
  \<^verbatim>\<open>Partial<EnvironmentEntity>\<close> payload are such objects.
\<close>

type_synonym js_object = "(string \<times> string) list"

definition keys :: "js_object \<Rightarrow> string set" where
  "keys obj = fst ` set obj"

text \<open>The update document \<^verbatim>\<open>{ $set: updatePayload }\<close>.\<close>

datatype update_body = Dollar_set js_object

subsection \<open>Asynchronous calls with effects on the store\<close>

text \<open>
  An \<^verbatim>\<open>async\<close> method is a function from the state of the store to an outcome and
  the state it leaves: \<open>Inl e\<close> is a rejected promise (the error \<open>e\<close> was thrown),
  \<open>Inr r\<close> a promise resolved with \<open>r\<close>.
\<close>

type_synonym ('s, 'e, 'a) async = "'s \<Rightarrow> ('e + 'a) \<times> 's"

text \<open>
  \<^verbatim>\<open>return await p\<close> inside an \<^verbatim>\<open>async\<close> method: a rejection of \<open>p\<close> is rethrown,
  a resolution is returned; the method itself touches the state no further.
\<close>

definition return_await :: "('e + 'a) \<times> 's \<Rightarrow> ('e + 'a) \<times> 's" where
  "return_await outcome =
     (case outcome of
        (Inl e, s') \<Rightarrow> (Inl e, s')
      | (Inr r, s') \<Rightarrow> (Inr r, s'))"

text \<open>
  The repository is injected through the constructor
  (\<^verbatim>\<open>constructor(private environmentRepository: EnvironmentRepository)\<close>); the only
  member the use-case calls is \<^verbatim>\<open>update(query, updateBody)\<close>, so a repository is
  that function.
\<close>

type_synonym ('s, 'e, 'r) repository_update =
  "js_object \<Rightarrow> update_body \<Rightarrow> ('s, 'e, 'r) async"

subsection \<open>UpdateEnvironment.execute\<close>

record UpdateEnvironmentCommand =
  uec_id :: string
  uec_organizationId :: string
  uec_userId :: string
  uec_name :: "string option"
  uec_identifier :: "string option"
  uec_parentId :: "string option"

text \<open>
  Lines 11 to 22 of the use-case: the payload starts as the empty object and receives up
  to three assignments, in the source's order (name, \<^verbatim>\<open>_parentId\<close>, identifier).
  Each guard is written as in the source: the field's own truthiness, and then
  \<^verbatim>\<open>command.name !== ''\<close> in all three. The \<open>case\<close> reads the string that the
  assignment stores; its \<open>None\<close> branch is the falsy case of the guard.
\<close>

definition updatePayload :: "UpdateEnvironmentCommand \<Rightarrow> js_object" where
  "updatePayload command =
     (let p0 = [];
          p1 = (case uec_name command of
                  None \<Rightarrow> p0
                | Some v \<Rightarrow>
                    if truthy (Some v) \<and> strict_neq_empty (uec_name command)
                    then AList.update ''name'' v p0 else p0);
          p2 = (case uec_parentId command of
                  None \<Rightarrow> p1
                | Some v \<Rightarrow>
                    if truthy (Some v) \<and> strict_neq_empty (uec_name command)
                    then AList.update ''_parentId'' v p1 else p1);
          p3 = (case uec_identifier command of
                  None \<Rightarrow> p2
                | Some v \<Rightarrow>
                    if truthy (Some v) \<and> strict_neq_empty (uec_name command)
                    then AList.update ''identifier'' v p2 else p2)
      in p3)"

text \<open>
  Lines 24 to 29: one call of the repository's \<^verbatim>\<open>update\<close> with the filter
  \<^verbatim>\<open>{ _id: command._id }\<close> and the document \<^verbatim>\<open>{ $set: updatePayload }\<close>, awaited
  and returned.
\<close>

definition execute ::
  "('s, 'e, 'r) repository_update \<Rightarrow> UpdateEnvironmentCommand \<Rightarrow> ('s, 'e, 'r) async" where
  "execute environmentRepository_update command s =
     return_await
       (environmentRepository_update
          [(''_id'', uec_id command)]
          (Dollar_set (updatePayload command))
          s)"

text \<open>
  A recording repository, as a test double would be injected: it forwards every call to
  the repository it wraps and appends the call's arguments to a log kept beside the
  store.
\<close>

definition recording ::
  "('s, 'e, 'r) repository_update \<Rightarrow>
   ('s \<times> (js_object \<times> update_body) list, 'e, 'r) repository_update" where
  "recording upd query body =
     (\<lambda>(s, calls). case upd query body s of
        (outcome, s') \<Rightarrow> (outcome, (s', calls @ [(query, body)])))"

subsection \<open>The store behind the repository\<close>

text \<open>
  A stored environment record maps field names to values; the collection is the list of
  its records.
\<close>

type_synonym entity = "string \<Rightarrow> string option"

definition matches :: "js_object \<Rightarrow> entity \<Rightarrow> bool" where
  "matches query r = list_all (\<lambda>(k, v). r k = Some v) query"

datatype ack = Acknowledged

text \<open>
  Modelled from the spec: \<^verbatim>\<open>EnvironmentRepository.update\<close> (package
  \<^verbatim>\<open>@novu/dal\<close>) is not among the sources. The spec describes it as a "partial
  update-by-filter" that "persists via a partial-field merge against the record matched
  by id" and whose result has "no guaranteed shape beyond operation acknowledgment":
  every record that the filter matches receives the fields of the \<^verbatim>\<open>$set\<close> payload,
  its other fields and all other records stay as they are.
\<close>

definition merge_update :: "(entity list, 'e, ack) repository_update" where
  "merge_update query body store =
     (case body of
        Dollar_set payload \<Rightarrow>
          (Inr Acknowledged,
           map (\<lambda>r. if matches query r then r ++ map_of payload else r) store))"

text \<open>
  A repository whose \<^verbatim>\<open>update\<close> applies a write and then rejects, as a store does
  when the write lands and its acknowledgment fails (a write-concern timeout). Its
  state is the number of writes performed so far.
\<close>

definition write_then_reject :: "(nat, string, ack) repository_update" where
  "write_then_reject query body writes = (Inl ''write concern timeout'', Suc writes)"

subsection \<open>Controller handlers\<close>

record IJwtPayload =
  jwt_id :: string
  jwt_organizationId :: string
  jwt_environmentId :: string

record UpdateEnvironmentRequestDto =
  req_name :: "string option"
  req_identifier :: "string option"
  req_parentId :: "string option"

record GetApiKeysCommand =
  gak_userId :: string
  gak_organizationId :: string
  gak_environmentId :: string

record UpdateWidgetSettingsRequestDto =
  wreq_notificationCenterEncryption :: bool

record UpdateWidgetSettingsCommand =
  uws_organizationId :: string
  uws_environmentId :: string
  uws_notificationCenterEncryption :: bool

text \<open>
  The static \<^verbatim>\<open>Command.create\<close> of each command class is not among the sources; every
  handler takes it as the parameter \<open>create\<close>: given the object literal it either throws
  (\<open>Inl\<close>) or returns a command (\<open>Inr\<close>). It runs while the argument of
  \<^verbatim>\<open>execute\<close> is evaluated, so when it throws the use-case is never called and the
  store is as it was. The use-cases are injected through the controller's constructor and
  are parameters too.
\<close>

definition updateMyEnvironment ::
  "(UpdateEnvironmentCommand \<Rightarrow> 'e + UpdateEnvironmentCommand) \<Rightarrow>
   (UpdateEnvironmentCommand \<Rightarrow> ('s, 'e, 'r) async) \<Rightarrow>
   IJwtPayload \<Rightarrow> string \<Rightarrow> UpdateEnvironmentRequestDto \<Rightarrow> ('s, 'e, 'r) async" where
  "updateMyEnvironment create updateEnvironmentUsecase user envId payload s =
     (case create
             \<lparr> uec_id = envId,
               uec_organizationId = jwt_organizationId user,
               uec_userId = jwt_id user,
               uec_name = req_name payload,
               uec_identifier = req_identifier payload,
               uec_parentId = req_parentId payload \<rparr> of
        Inl e \<Rightarrow> (Inl e, s)
      | Inr command \<Rightarrow> return_await (updateEnvironmentUsecase command s))"

definition getOrganizationApiKeys ::
  "(GetApiKeysCommand \<Rightarrow> 'e + GetApiKeysCommand) \<Rightarrow>
   (GetApiKeysCommand \<Rightarrow> ('s, 'e, 'r) async) \<Rightarrow>
   IJwtPayload \<Rightarrow> ('s, 'e, 'r) async" where
  "getOrganizationApiKeys create getApiKeysUsecase user s =
     (case create
             \<lparr> gak_userId = jwt_id user,
               gak_organizationId = jwt_organizationId user,
               gak_environmentId = jwt_environmentId user \<rparr> of
        Inl e \<Rightarrow> (Inl e, s)
      | Inr command \<Rightarrow> return_await (getApiKeysUsecase command s))"

definition regenerateOrganizationApiKeys ::
  "(GetApiKeysCommand \<Rightarrow> 'e + GetApiKeysCommand) \<Rightarrow>
   (GetApiKeysCommand \<Rightarrow> ('s, 'e, 'r) async) \<Rightarrow>
   IJwtPayload \<Rightarrow> ('s, 'e, 'r) async" where
  "regenerateOrganizationApiKeys create regenerateApiKeysUsecase user s =
     (case create
             \<lparr> gak_userId = jwt_id user,
               gak_organizationId = jwt_organizationId user,
               gak_environmentId = jwt_environmentId user \<rparr> of
        Inl e \<Rightarrow> (Inl e, s)
      | Inr command \<Rightarrow> return_await (regenerateApiKeysUsecase command s))"

definition updateWidgetSettings ::
  "(UpdateWidgetSettingsCommand \<Rightarrow> 'e + UpdateWidgetSettingsCommand) \<Rightarrow>
   (UpdateWidgetSettingsCommand \<Rightarrow> ('s, 'e, 'r) async) \<Rightarrow>
   IJwtPayload \<Rightarrow> UpdateWidgetSettingsRequestDto \<Rightarrow> ('s, 'e, 'r) async" where
  "updateWidgetSettings create updateWidgetSettingsUsecase user body s =
     (case create
             \<lparr> uws_organizationId = jwt_organizationId user,
               uws_environmentId = jwt_environmentId user,
               uws_notificationCenterEncryption = wreq_notificationCenterEncryption body \<rparr> of
        Inl e \<Rightarrow> (Inl e, s)
      | Inr command \<Rightarrow> return_await (updateWidgetSettingsUsecase command s))"

section \<open>Basic facts\<close>

lemma return_await_id: "return_await outcome = outcome"
  by (simp add: return_await_def split: prod.splits sum.splits)

lemma execute_call:
  "execute upd command s =
     upd [(''_id'', uec_id command)] (Dollar_set (updatePayload command)) s"
  by (simp add: execute_def return_await_id)

subsection \<open>Keys and lookups of the payload\<close>

lemma keys_Nil: "keys [] = {}"
  by (simp add: keys_def)

lemma keys_Cons: "keys ((k, v) # obj) = insert k (keys obj)"
  by (simp add: keys_def)

lemma keys_update: "keys (AList.update k v obj) = insert k (keys obj)"
  by (simp add: keys_def dom_update)

lemma keys_map_of: "(k \<in> keys obj) = (map_of obj k \<noteq> None)"
  by (simp add: keys_def map_of_eq_None_iff)

text \<open>
  What the payload holds under each of its three keys, read off the three guarded
  assignments. For the name the second test of its guard is redundant: a truthy name is
  not the empty string.
\<close>

lemma map_of_updatePayload_name:
  "map_of (updatePayload c) ''name'' = (if truthy (uec_name c) then uec_name c else None)"
  by (cases "uec_name c"; cases "uec_parentId c"; cases "uec_identifier c")
     (simp_all add: updatePayload_def Let_def strict_neq_empty_def update_conv')

lemma map_of_updatePayload_parentId:
  "map_of (updatePayload c) ''_parentId'' =
     (if truthy (uec_parentId c) \<and> strict_neq_empty (uec_name c)
      then uec_parentId c else None)"
  by (cases "uec_name c"; cases "uec_parentId c"; cases "uec_identifier c")
     (simp_all add: updatePayload_def Let_def strict_neq_empty_def update_conv')

lemma map_of_updatePayload_identifier:
  "map_of (updatePayload c) ''identifier'' =
     (if truthy (uec_identifier c) \<and> strict_neq_empty (uec_name c)
      then uec_identifier c else None)"
  by (cases "uec_name c"; cases "uec_parentId c"; cases "uec_identifier c")
     (simp_all add: updatePayload_def Let_def strict_neq_empty_def update_conv')

lemma keys_updatePayload:
  "keys (updatePayload c) =
     (if truthy (uec_name c) then {''name''} else {}) \<union>
     (if truthy (uec_parentId c) \<and> strict_neq_empty (uec_name c)
      then {''_parentId''} else {}) \<union>
     (if truthy (uec_identifier c) \<and> strict_neq_empty (uec_name c)
      then {''identifier''} else {})"
  by (cases "uec_name c"; cases "uec_parentId c"; cases "uec_identifier c")
     (auto simp add: updatePayload_def Let_def strict_neq_empty_def
        keys_update keys_Nil keys_Cons)

subsection \<open>The merging store\<close>

lemma merge_update_length:
  "length (snd (merge_update query (Dollar_set payload) store)) = length store"
  by (simp add: merge_update_def)

lemma merge_update_outcome:
  "fst (merge_update query (Dollar_set payload) store) = Inr Acknowledged"
  by (simp add: merge_update_def)

lemma merge_update_frame:
  assumes "k \<notin> keys payload" and "i < length store"
  shows "(snd (merge_update query (Dollar_set payload) store) ! i) k = (store ! i) k"
proof -
  from assms(1) have "map_of payload k = None"
    by (simp add: keys_map_of)
  then have "(store ! i ++ map_of payload) k = (store ! i) k"
    by (simp add: map_add_def)
  with assms(2) show ?thesis
    by (simp add: merge_update_def)
qed

lemma merge_update_written:
  assumes "map_of payload k = Some v" and "i < length store"
    and "matches query (store ! i)"
  shows "(snd (merge_update query (Dollar_set payload) store) ! i) k = Some v"
  using assms by (simp add: merge_update_def map_add_def)

text \<open>
  The payload reads three fields of the command and no other: commands that agree on
  name, \<^verbatim>\<open>_parentId\<close> and identifier build the same payload.
\<close>

lemma updatePayload_depends:
  assumes "uec_name c' = uec_name c" and "uec_parentId c' = uec_parentId c"
    and "uec_identifier c' = uec_identifier c"
  shows "updatePayload c' = updatePayload c"
  unfolding updatePayload_def assms by (rule refl)

section \<open>The update use-case\<close>

text \<open>
  Claim C1. For every UpdateEnvironmentCommand, a field (name, identifier, parent-id) is
  in the update payload only if that field is truthy and \<^verbatim>\<open>command.name !== ''\<close>
  holds. In particular, when the name is the empty string, neither the identifier nor
  the parent-id is in the payload (the payload is the empty object), whatever the
  identifier is: for name \<^verbatim>\<open>""\<close> and identifier \<^verbatim>\<open>"prod-v2"\<close> the identifier
  update is suppressed.
\<close>

theorem update_payload_inclusion_policy:
  "(''name'' \<in> keys (updatePayload c) \<longrightarrow>
      truthy (uec_name c) \<and> strict_neq_empty (uec_name c))
   \<and> (''identifier'' \<in> keys (updatePayload c) \<longrightarrow>
      truthy (uec_identifier c) \<and> strict_neq_empty (uec_name c))
   \<and> (''_parentId'' \<in> keys (updatePayload c) \<longrightarrow>
      truthy (uec_parentId c) \<and> strict_neq_empty (uec_name c))
   \<and> (uec_name c = Some '''' \<longrightarrow>
      ''identifier'' \<notin> keys (updatePayload c) \<and> ''_parentId'' \<notin> keys (updatePayload c)
      \<and> updatePayload c = [])"
proof -
  have empty: "updatePayload c = []" if "uec_name c = Some ''''"
    using that
    by (cases "uec_parentId c"; cases "uec_identifier c")
       (simp_all add: updatePayload_def Let_def strict_neq_empty_def)
  have n: "''name'' \<in> keys (updatePayload c) \<longrightarrow>
      truthy (uec_name c) \<and> strict_neq_empty (uec_name c)"
    by (cases "uec_name c")
       (auto simp add: keys_map_of map_of_updatePayload_name strict_neq_empty_def
          split: if_splits)
  have i: "''identifier'' \<in> keys (updatePayload c) \<longrightarrow>
      truthy (uec_identifier c) \<and> strict_neq_empty (uec_name c)"
    by (simp add: keys_map_of map_of_updatePayload_identifier split: if_splits)
  have p: "''_parentId'' \<in> keys (updatePayload c) \<longrightarrow>
      truthy (uec_parentId c) \<and> strict_neq_empty (uec_name c)"
    by (simp add: keys_map_of map_of_updatePayload_parentId split: if_splits)
  from empty n i p show ?thesis
    by (simp add: keys_Nil)
qed

text \<open>
  The spec's scenario (name \<^verbatim>\<open>""\<close>, identifier \<^verbatim>\<open>"prod-v2"\<close>): nothing is
  included. With the name \<^verbatim>\<open>"Production"\<close> instead, and a parent, all three fields
  are.
\<close>

theorem update_payload_inclusion_policy_witness:
  "uec_name \<lparr> uec_id = ''E1'', uec_organizationId = ''O1'', uec_userId = ''U1'',
       uec_name = Some '''', uec_identifier = Some ''prod-v2'', uec_parentId = None \<rparr> = Some ''''
   \<and> truthy (Some ''prod-v2'')
   \<and> ''identifier'' \<notin> keys (updatePayload
       \<lparr> uec_id = ''E1'', uec_organizationId = ''O1'', uec_userId = ''U1'',
         uec_name = Some '''', uec_identifier = Some ''prod-v2'', uec_parentId = None \<rparr>)
   \<and> ''_parentId'' \<notin> keys (updatePayload
       \<lparr> uec_id = ''E1'', uec_organizationId = ''O1'', uec_userId = ''U1'',
         uec_name = Some '''', uec_identifier = Some ''prod-v2'', uec_parentId = None \<rparr>)
   \<and> keys (updatePayload
       \<lparr> uec_id = ''E1'', uec_organizationId = ''O1'', uec_userId = ''U1'',
         uec_name = Some ''Production'', uec_identifier = Some ''prod-v2'',
         uec_parentId = Some ''E0'' \<rparr>) = {''name'', ''_parentId'', ''identifier''}
   \<and> truthy (Some ''Production'') \<and> strict_neq_empty (Some ''Production'')
   \<and> truthy (Some ''E0'')"
  using update_payload_inclusion_policy
    [of "\<lparr> uec_id = ''E1'', uec_organizationId = ''O1'', uec_userId = ''U1'',
         uec_name = Some '''', uec_identifier = Some ''prod-v2'', uec_parentId = None \<rparr>"]
    update_payload_inclusion_policy
    [of "\<lparr> uec_id = ''E1'', uec_organizationId = ''O1'', uec_userId = ''U1'',
         uec_name = Some ''Production'', uec_identifier = Some ''prod-v2'',
         uec_parentId = Some ''E0'' \<rparr>"]
  by (simp add: keys_updatePayload keys_Nil strict_neq_empty_def insert_commute)

text \<open>
  Claim C2. For every UpdateEnvironmentCommand, the filter passed to the store's update
  operation holds the environment id only (\<^verbatim>\<open>_id = command._id\<close>); the organization
  id of the command is not part of it. Whatever the repository, \<^verbatim>\<open>execute\<close> is the
  call of \<^verbatim>\<open>update\<close> with that filter; a recording repository logs exactly this
  filter; the filter's only key is \<^verbatim>\<open>_id\<close>; and replacing the command's organization
  id by any other changes neither the outcome nor the store.
\<close>

theorem update_filter_is_id_only:
  "execute upd c s = upd [(''_id'', uec_id c)] (Dollar_set (updatePayload c)) s
   \<and> snd (snd (execute (recording upd) c (s, []))) =
       [([(''_id'', uec_id c)], Dollar_set (updatePayload c))]
   \<and> keys [(''_id'', uec_id c)] = {''_id''}
   \<and> execute upd (c\<lparr>uec_organizationId := org\<rparr>) s = execute upd c s"
proof -
  have same: "updatePayload (c\<lparr>uec_organizationId := org\<rparr>) = updatePayload c"
    by (rule updatePayload_depends) simp_all
  have log: "snd (snd (execute (recording upd) c (s, []))) =
       [([(''_id'', uec_id c)], Dollar_set (updatePayload c))]"
    by (simp add: execute_call recording_def split: prod.splits)
  from same log show ?thesis
    by (simp add: execute_call keys_Cons keys_Nil)
qed

text \<open>
  Claim C3. For every UpdateEnvironmentCommand, a field whose value is absent
  (undefined) or the empty string, that is a falsy field, is never in the
  \<^verbatim>\<open>$set\<close> payload sent to the store, so the stored value of that field is left
  unchanged by the update. The first four conjuncts are about \<^verbatim>\<open>execute\<close> with any
  repository; the last is about the merging store: in every record of the collection,
  matched or not, a falsy field of the command keeps the value it had.
\<close>

theorem falsy_field_never_in_payload:
  "(\<not> truthy (uec_name c) \<longrightarrow> ''name'' \<notin> keys (updatePayload c))
   \<and> (\<not> truthy (uec_identifier c) \<longrightarrow> ''identifier'' \<notin> keys (updatePayload c))
   \<and> (\<not> truthy (uec_parentId c) \<longrightarrow> ''_parentId'' \<notin> keys (updatePayload c))
   \<and> execute upd c s = upd [(''_id'', uec_id c)] (Dollar_set (updatePayload c)) s
   \<and> (i < length store \<longrightarrow>
        (\<not> truthy (uec_name c) \<longrightarrow>
           (snd (execute (merge_update :: (entity list, 'e, ack) repository_update)
                   c store) ! i) ''name'' = (store ! i) ''name'')
      \<and> (\<not> truthy (uec_identifier c) \<longrightarrow>
           (snd (execute (merge_update :: (entity list, 'e, ack) repository_update)
                   c store) ! i) ''identifier'' = (store ! i) ''identifier'')
      \<and> (\<not> truthy (uec_parentId c) \<longrightarrow>
           (snd (execute (merge_update :: (entity list, 'e, ack) repository_update)
                   c store) ! i) ''_parentId'' = (store ! i) ''_parentId''))"
proof -
  have n: "\<not> truthy (uec_name c) \<Longrightarrow> ''name'' \<notin> keys (updatePayload c)"
    by (simp add: keys_map_of map_of_updatePayload_name)
  have d: "\<not> truthy (uec_identifier c) \<Longrightarrow> ''identifier'' \<notin> keys (updatePayload c)"
    by (simp add: keys_map_of map_of_updatePayload_identifier)
  have p: "\<not> truthy (uec_parentId c) \<Longrightarrow> ''_parentId'' \<notin> keys (updatePayload c)"
    by (simp add: keys_map_of map_of_updatePayload_parentId)
  have frame:
    "(snd (execute (merge_update :: (entity list, 'e, ack) repository_update) c store) ! i) k
       = (store ! i) k"
    if "k \<notin> keys (updatePayload c)" and "i < length store" for k
    using that by (simp add: execute_call merge_update_frame)
  have sn:
    "(snd (execute (merge_update :: (entity list, 'e, ack) repository_update) c store) ! i)
       ''name'' = (store ! i) ''name''"
    if "i < length store" and "\<not> truthy (uec_name c)"
    using that n frame by simp
  have sd:
    "(snd (execute (merge_update :: (entity list, 'e, ack) repository_update) c store) ! i)
       ''identifier'' = (store ! i) ''identifier''"
    if "i < length store" and "\<not> truthy (uec_identifier c)"
    using that d frame by simp
  have sp:
    "(snd (execute (merge_update :: (entity list, 'e, ack) repository_update) c store) ! i)
       ''_parentId'' = (store ! i) ''_parentId''"
    if "i < length store" and "\<not> truthy (uec_parentId c)"
    using that p frame by simp
  have sent: "execute upd c s = upd [(''_id'', uec_id c)] (Dollar_set (updatePayload c)) s"
    by (rule execute_call)
  show ?thesis
    using n d p sn sd sp sent by (intro conjI impI) assumption+
qed

text \<open>
  A command with a new name, the empty string as identifier and no parent, run against a
  collection holding the environment \<^verbatim>\<open>E1\<close>: only the name is sent and stored; the
  identifier and the parent of the record are as before.
\<close>

theorem falsy_field_never_in_payload_witness:
  "\<not> truthy (Some '''') \<and> \<not> truthy None
   \<and> keys (updatePayload
       \<lparr> uec_id = ''E1'', uec_organizationId = ''O1'', uec_userId = ''U1'',
         uec_name = Some ''Staging'', uec_identifier = Some '''', uec_parentId = None \<rparr>)
       = {''name''}
   \<and> (0::nat) < length [[''_id'' \<mapsto> ''E1'', ''name'' \<mapsto> ''Production'',
                          ''identifier'' \<mapsto> ''prod'', ''_parentId'' \<mapsto> ''E0'']]
   \<and> (snd (execute (merge_update :: (entity list, unit, ack) repository_update)
         \<lparr> uec_id = ''E1'', uec_organizationId = ''O1'', uec_userId = ''U1'',
           uec_name = Some ''Staging'', uec_identifier = Some '''', uec_parentId = None \<rparr>
         [[''_id'' \<mapsto> ''E1'', ''name'' \<mapsto> ''Production'',
           ''identifier'' \<mapsto> ''prod'', ''_parentId'' \<mapsto> ''E0'']]) ! 0) ''identifier''
       = Some ''prod''
   \<and> (snd (execute (merge_update :: (entity list, unit, ack) repository_update)
         \<lparr> uec_id = ''E1'', uec_organizationId = ''O1'', uec_userId = ''U1'',
           uec_name = Some ''Staging'', uec_identifier = Some '''', uec_parentId = None \<rparr>
         [[''_id'' \<mapsto> ''E1'', ''name'' \<mapsto> ''Production'',
           ''identifier'' \<mapsto> ''prod'', ''_parentId'' \<mapsto> ''E0'']]) ! 0) ''_parentId''
       = Some ''E0''
   \<and> (snd (execute (merge_update :: (entity list, unit, ack) repository_update)
         \<lparr> uec_id = ''E1'', uec_organizationId = ''O1'', uec_userId = ''U1'',
           uec_name = Some ''Staging'', uec_identifier = Some '''', uec_parentId = None \<rparr>
         [[''_id'' \<mapsto> ''E1'', ''name'' \<mapsto> ''Production'',
           ''identifier'' \<mapsto> ''prod'', ''_parentId'' \<mapsto> ''E0'']]) ! 0) ''name''
       = Some ''Staging''"
  using falsy_field_never_in_payload
    [where ?'e = unit
       and c = "\<lparr> uec_id = ''E1'', uec_organizationId = ''O1'', uec_userId = ''U1'',
           uec_name = Some ''Staging'', uec_identifier = Some '''', uec_parentId = None \<rparr>"
       and upd = "merge_update :: (entity list, unit, ack) repository_update"
       and s = "[[''_id'' \<mapsto> ''E1'', ''name'' \<mapsto> ''Production'',
           ''identifier'' \<mapsto> ''prod'', ''_parentId'' \<mapsto> ''E0'']]"
       and i = 0
       and store = "[[''_id'' \<mapsto> ''E1'', ''name'' \<mapsto> ''Production'',
           ''identifier'' \<mapsto> ''prod'', ''_parentId'' \<mapsto> ''E0'']]"]
  by (simp add: keys_updatePayload strict_neq_empty_def execute_call merge_update_def
        matches_def map_of_updatePayload_name map_add_def)

text \<open>
  Claim C4 as stated: \<^verbatim>\<open>execute\<close> performs exactly one store operation, and if that
  store call raises an error, the same error propagates unchanged to the caller and no
  store write has occurred. The last part does not hold of \<^verbatim>\<open>execute\<close>: it adds
  nothing around the call, neither a transaction nor a compensating action, so when the
  repository writes and then rejects, the caller receives the error and the write
  stays. With \<^const>\<open>write_then_reject\<close> the call is rejected, \<^verbatim>\<open>execute\<close> is
  rejected with the same error, and the store went from no write to one.
\<close>

theorem store_written_before_rejection_counterexample:
  "fst (write_then_reject
          [(''_id'', ''E1'')]
          (Dollar_set (updatePayload
             \<lparr> uec_id = ''E1'', uec_organizationId = ''O1'', uec_userId = ''U1'',
               uec_name = Some ''Staging'', uec_identifier = None, uec_parentId = None \<rparr>))
          0) = Inl ''write concern timeout''
   \<and> fst (execute write_then_reject
        \<lparr> uec_id = ''E1'', uec_organizationId = ''O1'', uec_userId = ''U1'',
          uec_name = Some ''Staging'', uec_identifier = None, uec_parentId = None \<rparr>
        0) = Inl ''write concern timeout''
   \<and> snd (execute write_then_reject
        \<lparr> uec_id = ''E1'', uec_organizationId = ''O1'', uec_userId = ''U1'',
          uec_name = Some ''Staging'', uec_identifier = None, uec_parentId = None \<rparr>
        0) = Suc 0
   \<and> snd (execute write_then_reject
        \<lparr> uec_id = ''E1'', uec_organizationId = ''O1'', uec_userId = ''U1'',
          uec_name = Some ''Staging'', uec_identifier = None, uec_parentId = None \<rparr>
        0) \<noteq> 0"
  by (simp add: execute_call write_then_reject_def)

text \<open>
  Claim C4, amended. \<^verbatim>\<open>execute\<close> performs exactly one store operation, a single
  call of \<^verbatim>\<open>environmentRepository.update\<close>, with no retry, recovery or
  compensating action: run with a recording repository, the log grows by exactly one
  entry, and outcome and store after \<^verbatim>\<open>execute\<close> are those of that one call. If
  the call raises an error, the same error propagates unchanged to the caller and the
  store is left exactly as that call left it; \<^verbatim>\<open>execute\<close> performs no store write
  of its own.
\<close>

theorem single_store_call_error_propagates:
  "snd (snd (execute (recording upd) c (s, calls))) =
       calls @ [([(''_id'', uec_id c)], Dollar_set (updatePayload c))]
   \<and> execute upd c s = upd [(''_id'', uec_id c)] (Dollar_set (updatePayload c)) s
   \<and> (fst (upd [(''_id'', uec_id c)] (Dollar_set (updatePayload c)) s) = Inl e \<longrightarrow>
        fst (execute upd c s) = Inl e
        \<and> snd (execute upd c s) =
            snd (upd [(''_id'', uec_id c)] (Dollar_set (updatePayload c)) s)
        \<and> fst (execute (recording upd) c (s, calls)) = Inl e)"
proof -
  let ?call = "upd [(''_id'', uec_id c)] (Dollar_set (updatePayload c)) s"
  have log: "snd (snd (execute (recording upd) c (s, calls))) =
       calls @ [([(''_id'', uec_id c)], Dollar_set (updatePayload c))]"
    by (simp add: execute_call recording_def split: prod.splits)
  have out: "fst (execute (recording upd) c (s, calls)) = fst ?call"
    by (simp add: execute_call recording_def split: prod.splits)
  have one: "execute upd c s = ?call"
    by (rule execute_call)
  from log out one show ?thesis
    by simp
qed

text \<open>
  The rejecting repository after three earlier writes: one call is logged, the error
  comes back unchanged, and the store is what that call made of it.
\<close>

theorem single_store_call_error_propagates_witness:
  "fst (write_then_reject
          [(''_id'', ''E1'')]
          (Dollar_set (updatePayload
             \<lparr> uec_id = ''E1'', uec_organizationId = ''O1'', uec_userId = ''U1'',
               uec_name = Some ''Staging'', uec_identifier = None, uec_parentId = None \<rparr>))
          3) = Inl ''write concern timeout''
   \<and> execute write_then_reject
        \<lparr> uec_id = ''E1'', uec_organizationId = ''O1'', uec_userId = ''U1'',
          uec_name = Some ''Staging'', uec_identifier = None, uec_parentId = None \<rparr>
        3
     = write_then_reject [(''_id'', ''E1'')] (Dollar_set [(''name'', ''Staging'')]) 3
   \<and> fst (execute (recording write_then_reject)
        \<lparr> uec_id = ''E1'', uec_organizationId = ''O1'', uec_userId = ''U1'',
          uec_name = Some ''Staging'', uec_identifier = None, uec_parentId = None \<rparr>
        (3, [])) = Inl ''write concern timeout''
   \<and> snd (snd (execute (recording write_then_reject)
         \<lparr> uec_id = ''E1'', uec_organizationId = ''O1'', uec_userId = ''U1'',
           uec_name = Some ''Staging'', uec_identifier = None, uec_parentId = None \<rparr>
         (3, [])))
     = [([(''_id'', ''E1'')], Dollar_set [(''name'', ''Staging'')])]"
  using single_store_call_error_propagates
    [of write_then_reject
        "\<lparr> uec_id = ''E1'', uec_organizationId = ''O1'', uec_userId = ''U1'',
           uec_name = Some ''Staging'', uec_identifier = None, uec_parentId = None \<rparr>"
        3 "[]" "''write concern timeout''"]
  by (simp add: updatePayload_def strict_neq_empty_def write_then_reject_def)

text \<open>
  Claim C8. For every UpdateEnvironmentCommand, \<^verbatim>\<open>execute\<close> returns exactly the
  value returned by the store's update operation, without transforming or wrapping it:
  its outcome is the outcome of the call, and when the call resolves with \<open>r\<close> and
  leaves the store \<open>s'\<close>, so does \<^verbatim>\<open>execute\<close>.
\<close>

theorem execute_returns_store_result:
  "fst (execute upd c s) = fst (upd [(''_id'', uec_id c)] (Dollar_set (updatePayload c)) s)
   \<and> (upd [(''_id'', uec_id c)] (Dollar_set (updatePayload c)) s = (Inr r, s') \<longrightarrow>
        execute upd c s = (Inr r, s'))"
  by (simp add: execute_call)

text \<open>
  Two repositories: one that resolves with a value computed from its arguments, and the
  merging store with its acknowledgment.
\<close>

theorem execute_returns_store_result_witness:
  "execute (\<lambda>query body store. (Inr (length query, body) :: unit + nat \<times> update_body, store))
      \<lparr> uec_id = ''E1'', uec_organizationId = ''O1'', uec_userId = ''U1'',
        uec_name = Some ''Staging'', uec_identifier = None, uec_parentId = None \<rparr>
      (7 :: nat)
     = (Inr (1, Dollar_set [(''name'', ''Staging'')]), 7)
   \<and> fst (execute (merge_update :: (entity list, unit, ack) repository_update)
        \<lparr> uec_id = ''E1'', uec_organizationId = ''O1'', uec_userId = ''U1'',
          uec_name = Some ''Staging'', uec_identifier = None, uec_parentId = None \<rparr>
        [[''_id'' \<mapsto> ''E1'', ''name'' \<mapsto> ''Production'']])
     = Inr Acknowledged"
  using execute_returns_store_result
    [of "\<lambda>query body store. (Inr (length query, body) :: unit + nat \<times> update_body, store)"
        "\<lparr> uec_id = ''E1'', uec_organizationId = ''O1'', uec_userId = ''U1'',
           uec_name = Some ''Staging'', uec_identifier = None, uec_parentId = None \<rparr>"
        "7 :: nat" "(1, Dollar_set [(''name'', ''Staging'')])" "7 :: nat"]
    execute_returns_store_result
    [of "merge_update :: (entity list, unit, ack) repository_update"
        "\<lparr> uec_id = ''E1'', uec_organizationId = ''O1'', uec_userId = ''U1'',
           uec_name = Some ''Staging'', uec_identifier = None, uec_parentId = None \<rparr>"
        "[[''_id'' \<mapsto> ''E1'', ''name'' \<mapsto> ''Production'']]"]
  by (simp add: updatePayload_def strict_neq_empty_def merge_update_outcome)

text \<open>
  Claim C9. For every UpdateEnvironmentCommand whose name is absent (undefined) rather
  than the empty string, the guard \<^verbatim>\<open>command.name !== ''\<close> holds, so a truthy
  identifier and a truthy parent-id are in the payload, with their values. The coupling
  suppresses a truthy identifier or parent-id exactly when the name is the empty
  string, not when the name is omitted.
\<close>

theorem absent_name_does_not_suppress:
  "(uec_name c = None \<longrightarrow> strict_neq_empty (uec_name c))
   \<and> (uec_name c = None \<and> truthy (uec_identifier c) \<longrightarrow>
        map_of (updatePayload c) ''identifier'' = uec_identifier c)
   \<and> (uec_name c = None \<and> truthy (uec_parentId c) \<longrightarrow>
        map_of (updatePayload c) ''_parentId'' = uec_parentId c)
   \<and> (truthy (uec_identifier c) \<longrightarrow>
        (''identifier'' \<notin> keys (updatePayload c)) = (uec_name c = Some ''''))
   \<and> (truthy (uec_parentId c) \<longrightarrow>
        (''_parentId'' \<notin> keys (updatePayload c)) = (uec_name c = Some ''''))"
  by (cases "uec_identifier c"; cases "uec_parentId c")
     (simp_all add: keys_map_of map_of_updatePayload_identifier
        map_of_updatePayload_parentId strict_neq_empty_def)

text \<open>
  No name, identifier \<^verbatim>\<open>"prod-v2"\<close>, parent \<^verbatim>\<open>"E0"\<close>: both are sent.
\<close>

theorem absent_name_does_not_suppress_witness:
  "uec_name \<lparr> uec_id = ''E1'', uec_organizationId = ''O1'', uec_userId = ''U1'',
       uec_name = None, uec_identifier = Some ''prod-v2'', uec_parentId = Some ''E0'' \<rparr> = None
   \<and> truthy (Some ''prod-v2'') \<and> truthy (Some ''E0'')
   \<and> updatePayload \<lparr> uec_id = ''E1'', uec_organizationId = ''O1'', uec_userId = ''U1'',
       uec_name = None, uec_identifier = Some ''prod-v2'', uec_parentId = Some ''E0'' \<rparr>
     = [(''_parentId'', ''E0''), (''identifier'', ''prod-v2'')]
   \<and> map_of (updatePayload \<lparr> uec_id = ''E1'', uec_organizationId = ''O1'', uec_userId = ''U1'',
       uec_name = None, uec_identifier = Some ''prod-v2'', uec_parentId = Some ''E0'' \<rparr>)
       ''identifier'' = Some ''prod-v2''
   \<and> map_of (updatePayload \<lparr> uec_id = ''E1'', uec_organizationId = ''O1'', uec_userId = ''U1'',
       uec_name = None, uec_identifier = Some ''prod-v2'', uec_parentId = Some ''E0'' \<rparr>)
       ''_parentId'' = Some ''E0''"
  using absent_name_does_not_suppress
    [of "\<lparr> uec_id = ''E1'', uec_organizationId = ''O1'', uec_userId = ''U1'',
       uec_name = None, uec_identifier = Some ''prod-v2'', uec_parentId = Some ''E0'' \<rparr>"]
  by (simp add: updatePayload_def strict_neq_empty_def)

text \<open>
  Claim C10. For every UpdateEnvironmentCommand, the \<^verbatim>\<open>$set\<close> payload sent to the
  store holds at most the three keys name, identifier and \<^verbatim>\<open>_parentId\<close>; the
  command's \<^verbatim>\<open>_id\<close>, organizationId and userId are never written to the stored
  record, so every other field of the environment record is unchanged by every update.
  For every repository the document that \<^verbatim>\<open>execute\<close> sends, and that a recording
  repository logs, is \<^verbatim>\<open>{ $set: updatePayload }\<close>; the keys of that payload are among
  the three, no key names the id, the organization or the user, and the payload does not
  depend on their values. The last two conjuncts are about the merging store: a field
  other than the three keeps its value in every record, and no record is added or
  removed.
\<close>

theorem payload_keys_bounded:
  "execute (upd :: ('s, 'e, 'r) repository_update) c s =
       upd [(''_id'', uec_id c)] (Dollar_set (updatePayload c)) s
   \<and> snd (snd (execute (recording upd) c (s, []))) =
       [([(''_id'', uec_id c)], Dollar_set (updatePayload c))]
   \<and> keys (updatePayload c) \<subseteq> {''name'', ''identifier'', ''_parentId''}
   \<and> ''_id'' \<notin> keys (updatePayload c)
   \<and> ''organizationId'' \<notin> keys (updatePayload c)
   \<and> ''_organizationId'' \<notin> keys (updatePayload c)
   \<and> ''userId'' \<notin> keys (updatePayload c)
   \<and> updatePayload (c\<lparr>uec_id := eid, uec_organizationId := org, uec_userId := uid\<rparr>)
       = updatePayload c
   \<and> (i < length store \<and> k \<notin> {''name'', ''identifier'', ''_parentId''} \<longrightarrow>
        (snd (execute (merge_update :: (entity list, 'e, ack) repository_update) c store) ! i) k
          = (store ! i) k)
   \<and> length (snd (execute (merge_update :: (entity list, 'e, ack) repository_update) c store))
       = length store"
proof -
  have sent: "execute upd c s = upd [(''_id'', uec_id c)] (Dollar_set (updatePayload c)) s"
    by (rule execute_call)
  have log: "snd (snd (execute (recording upd) c (s, []))) =
       [([(''_id'', uec_id c)], Dollar_set (updatePayload c))]"
    by (simp add: execute_call recording_def split: prod.splits)
  have sub: "keys (updatePayload c) \<subseteq> {''name'', ''identifier'', ''_parentId''}"
    by (auto simp add: keys_updatePayload split: if_splits)
  have others: "''_id'' \<notin> keys (updatePayload c)"
    "''organizationId'' \<notin> keys (updatePayload c)"
    "''_organizationId'' \<notin> keys (updatePayload c)"
    "''userId'' \<notin> keys (updatePayload c)"
    by (simp_all add: keys_updatePayload)
  have same: "updatePayload (c\<lparr>uec_id := eid, uec_organizationId := org, uec_userId := uid\<rparr>)
       = updatePayload c"
    by (rule updatePayload_depends) simp_all
  have frame:
    "(snd (execute (merge_update :: (entity list, 'e, ack) repository_update) c store) ! i) k
       = (store ! i) k"
    if "i < length store" and "k \<notin> {''name'', ''identifier'', ''_parentId''}"
  proof -
    from that(2) sub have "k \<notin> keys (updatePayload c)"
      by blast
    with that(1) show ?thesis
      by (simp add: execute_call merge_update_frame)
  qed
  have len:
    "length (snd (execute (merge_update :: (entity list, 'e, ack) repository_update) c store))
       = length store"
    by (simp add: execute_call merge_update_length)
  show ?thesis
    using sent log sub others same frame len
    by (intro conjI impI; (elim conjE)?) assumption+
qed

text \<open>
  A command of another organization and user that sets all three fields: the logged
  \<^verbatim>\<open>$set\<close> document has exactly the three keys, and the record's \<^verbatim>\<open>apiKeys\<close>
  field is as before.
\<close>

theorem payload_keys_bounded_witness:
  "(0::nat) < length [[''_id'' \<mapsto> ''E1'', ''_organizationId'' \<mapsto> ''O1'',
                        ''name'' \<mapsto> ''Production'', ''apiKeys'' \<mapsto> ''k-1'']]
   \<and> ''apiKeys'' \<notin> {''name'', ''identifier'', ''_parentId''}
   \<and> (snd (execute (merge_update :: (entity list, unit, ack) repository_update)
         \<lparr> uec_id = ''E1'', uec_organizationId = ''O2'', uec_userId = ''U9'',
           uec_name = Some ''Staging'', uec_identifier = Some ''stg'',
           uec_parentId = Some ''E0'' \<rparr>
         [[''_id'' \<mapsto> ''E1'', ''_organizationId'' \<mapsto> ''O1'',
           ''name'' \<mapsto> ''Production'', ''apiKeys'' \<mapsto> ''k-1'']]) ! 0) ''apiKeys''
       = Some ''k-1''
   \<and> keys (updatePayload
         \<lparr> uec_id = ''E1'', uec_organizationId = ''O2'', uec_userId = ''U9'',
           uec_name = Some ''Staging'', uec_identifier = Some ''stg'',
           uec_parentId = Some ''E0'' \<rparr>) = {''name'', ''_parentId'', ''identifier''}
   \<and> snd (snd (execute
         (recording (merge_update :: (entity list, unit, ack) repository_update))
         \<lparr> uec_id = ''E1'', uec_organizationId = ''O2'', uec_userId = ''U9'',
           uec_name = Some ''Staging'', uec_identifier = Some ''stg'',
           uec_parentId = Some ''E0'' \<rparr>
         ([[''_id'' \<mapsto> ''E1'', ''_organizationId'' \<mapsto> ''O1'',
            ''name'' \<mapsto> ''Production'', ''apiKeys'' \<mapsto> ''k-1'']], [])))
     = [([(''_id'', ''E1'')],
         Dollar_set [(''name'', ''Staging''), (''_parentId'', ''E0''),
                     (''identifier'', ''stg'')])]"
  using payload_keys_bounded
    [where ?'e = unit
       and upd = "merge_update :: (entity list, unit, ack) repository_update"
       and s = "[[''_id'' \<mapsto> ''E1'', ''_organizationId'' \<mapsto> ''O1'',
           ''name'' \<mapsto> ''Production'', ''apiKeys'' \<mapsto> ''k-1'']]"
       and c = "\<lparr> uec_id = ''E1'', uec_organizationId = ''O2'', uec_userId = ''U9'',
           uec_name = Some ''Staging'', uec_identifier = Some ''stg'',
           uec_parentId = Some ''E0'' \<rparr>"
       and eid = "''E7''" and org = "''O1''" and uid = "''U1''" and i = 0
       and store = "[[''_id'' \<mapsto> ''E1'', ''_organizationId'' \<mapsto> ''O1'',
           ''name'' \<mapsto> ''Production'', ''apiKeys'' \<mapsto> ''k-1'']]"
       and k = "''apiKeys''"]
  by (simp add: keys_updatePayload strict_neq_empty_def insert_commute updatePayload_def
        execute_call keys_Cons keys_Nil)

section \<open>The controller\<close>

text \<open>
  Claim C5. For the same user session, the regenerate-api-keys handler constructs a
  command equal to the one the get-api-keys handler constructs: both build a
  GetApiKeysCommand from the session's userId, organizationId and environmentId. With
  the same \<open>create\<close> and the same use-case the two handlers are the same function;
  a use-case that returns the command it receives shows that command: it is what
  \<open>create\<close> made of the three session fields, in both handlers.
\<close>

theorem regenerate_builds_same_command_as_get:
  "regenerateOrganizationApiKeys create usecase user s =
     getOrganizationApiKeys create usecase user s
   \<and> getOrganizationApiKeys Inr (\<lambda>command s. (Inr command, s)) user s =
       (Inr \<lparr> gak_userId = jwt_id user,
              gak_organizationId = jwt_organizationId user,
              gak_environmentId = jwt_environmentId user \<rparr>, s)
   \<and> regenerateOrganizationApiKeys Inr (\<lambda>command s. (Inr command, s)) user s =
       (Inr \<lparr> gak_userId = jwt_id user,
              gak_organizationId = jwt_organizationId user,
              gak_environmentId = jwt_environmentId user \<rparr>, s)
   \<and> getOrganizationApiKeys create (\<lambda>command s. (Inr command, s)) user s =
       (create \<lparr> gak_userId = jwt_id user,
                 gak_organizationId = jwt_organizationId user,
                 gak_environmentId = jwt_environmentId user \<rparr>, s)
   \<and> regenerateOrganizationApiKeys create (\<lambda>command s. (Inr command, s)) user s =
       (create \<lparr> gak_userId = jwt_id user,
                 gak_organizationId = jwt_organizationId user,
                 gak_environmentId = jwt_environmentId user \<rparr>, s)"
  by (simp add: regenerateOrganizationApiKeys_def getOrganizationApiKeys_def
        return_await_id split: sum.splits)

text \<open>
  Claim C6. For every session and request, the update-environment handler builds an
  UpdateEnvironmentCommand whose \<^verbatim>\<open>_id\<close> is the \<^verbatim>\<open>envId\<close> path parameter, whose
  organizationId and userId come from the authenticated session and whose name,
  identifier and \<^verbatim>\<open>_parentId\<close> come from the request body (\<^verbatim>\<open>parentId\<close> mapped
  to \<^verbatim>\<open>_parentId\<close>), and passes it unchanged to the update use-case. The command
  that \<open>create\<close> returns for that object goes to the use-case and the use-case's
  outcome is the handler's; when \<open>create\<close> throws, the handler rejects with that error
  and the store is as it was. With a \<open>create\<close> that accepts its argument, the
  use-case receives the object itself, and with the update use-case of this module the
  handler is the store call filtered by \<^verbatim>\<open>envId\<close>.
\<close>

theorem update_handler_builds_command:
  "(create \<lparr> uec_id = envId,
             uec_organizationId = jwt_organizationId user,
             uec_userId = jwt_id user,
             uec_name = req_name payload,
             uec_identifier = req_identifier payload,
             uec_parentId = req_parentId payload \<rparr> = Inr command \<longrightarrow>
      updateMyEnvironment create
        (usecase :: UpdateEnvironmentCommand \<Rightarrow> ('s, 'e, 'r) async) user envId payload s
        = usecase command s)
   \<and> (create \<lparr> uec_id = envId,
             uec_organizationId = jwt_organizationId user,
             uec_userId = jwt_id user,
             uec_name = req_name payload,
             uec_identifier = req_identifier payload,
             uec_parentId = req_parentId payload \<rparr> = Inl e \<longrightarrow>
      updateMyEnvironment create usecase user envId payload s = (Inl e, s))
   \<and> updateMyEnvironment
         (Inr :: UpdateEnvironmentCommand \<Rightarrow> 'e + UpdateEnvironmentCommand)
         (\<lambda>command s. (Inr command, s)) user envId payload s =
       (Inr \<lparr> uec_id = envId,
              uec_organizationId = jwt_organizationId user,
              uec_userId = jwt_id user,
              uec_name = req_name payload,
              uec_identifier = req_identifier payload,
              uec_parentId = req_parentId payload \<rparr>, s)
   \<and> updateMyEnvironment
         (Inr :: UpdateEnvironmentCommand \<Rightarrow> 'e + UpdateEnvironmentCommand)
         (execute (upd :: ('s, 'e, 'r) repository_update)) user envId payload s =
       upd [(''_id'', envId)]
         (Dollar_set (updatePayload
           \<lparr> uec_id = envId,
             uec_organizationId = jwt_organizationId user,
             uec_userId = jwt_id user,
             uec_name = req_name payload,
             uec_identifier = req_identifier payload,
             uec_parentId = req_parentId payload \<rparr>)) s"
  by (simp add: updateMyEnvironment_def return_await_id execute_call)

text \<open>
  The spec's request \<^verbatim>\<open>PUT /E1 {name: "", identifier: "prod-v2"}\<close> in the session of
  user \<^verbatim>\<open>U1\<close>: the use-case sees \<^verbatim>\<open>_id = E1\<close> and \<^verbatim>\<open>userId = U1\<close>. With a
  \<open>create\<close> that throws, the use-case does not run.
\<close>

theorem update_handler_builds_command_witness:
  "updateMyEnvironment Inr (\<lambda>command s. (Inr (uec_id command, uec_userId command), s))
     \<lparr> jwt_id = ''U1'', jwt_organizationId = ''O1'', jwt_environmentId = ''E9'' \<rparr>
     ''E1''
     \<lparr> req_name = Some '''', req_identifier = Some ''prod-v2'', req_parentId = None \<rparr>
     (0::nat)
   = (Inr (''E1'', ''U1'') :: string + string \<times> string, 0)
   \<and> updateMyEnvironment (\<lambda>d. Inl ''name must be a string'')
     (\<lambda>command s. (Inr (uec_id command, uec_userId command), Suc s))
     \<lparr> jwt_id = ''U1'', jwt_organizationId = ''O1'', jwt_environmentId = ''E9'' \<rparr>
     ''E1''
     \<lparr> req_name = Some '''', req_identifier = Some ''prod-v2'', req_parentId = None \<rparr>
     (0::nat)
   = (Inl ''name must be a string'' :: string + string \<times> string, 0)"
  using update_handler_builds_command
    [where create = "Inr :: UpdateEnvironmentCommand \<Rightarrow> string + UpdateEnvironmentCommand"
       and usecase = "\<lambda>command s. (Inr (uec_id command, uec_userId command), s)"
       and user = "\<lparr> jwt_id = ''U1'', jwt_organizationId = ''O1'', jwt_environmentId = ''E9'' \<rparr>"
       and envId = "''E1''"
       and payload = "\<lparr> req_name = Some '''', req_identifier = Some ''prod-v2'',
                       req_parentId = None \<rparr>"
       and s = "0::nat"
       and upd = "\<lambda>query body s. (Inr (''E1'', ''U1''), s)"
       and e = "''none''"
       and command = "\<lparr> uec_id = ''E1'', uec_organizationId = ''O1'', uec_userId = ''U1'',
                       uec_name = Some '''', uec_identifier = Some ''prod-v2'',
                       uec_parentId = None \<rparr>"]
    update_handler_builds_command
    [where create = "\<lambda>d. Inl ''name must be a string''"
       and usecase = "\<lambda>command s. (Inr (uec_id command, uec_userId command), Suc s)"
       and user = "\<lparr> jwt_id = ''U1'', jwt_organizationId = ''O1'', jwt_environmentId = ''E9'' \<rparr>"
       and envId = "''E1''"
       and payload = "\<lparr> req_name = Some '''', req_identifier = Some ''prod-v2'',
                       req_parentId = None \<rparr>"
       and s = "0::nat"
       and upd = "\<lambda>query body s. (Inr (''E1'', ''U1''), s)"
       and e = "''name must be a string''"
       and command = "\<lparr> uec_id = ''E1'', uec_organizationId = ''O1'', uec_userId = ''U1'',
                       uec_name = Some '''', uec_identifier = Some ''prod-v2'',
                       uec_parentId = None \<rparr>"]
  by simp

text \<open>
  Claim C7. For every session and request body, the update-widget-settings handler
  builds an UpdateWidgetSettingsCommand whose organizationId and environmentId are taken
  from the authenticated session (not from the request body) and whose
  notificationCenterEncryption flag is taken from the request body, and returns the
  use-case's result.
\<close>

theorem widget_settings_handler_builds_command:
  "(create \<lparr> uws_organizationId = jwt_organizationId user,
             uws_environmentId = jwt_environmentId user,
             uws_notificationCenterEncryption =
               wreq_notificationCenterEncryption body \<rparr> = Inr command \<longrightarrow>
      updateWidgetSettings create
        (usecase :: UpdateWidgetSettingsCommand \<Rightarrow> ('s, 'e, 'r) async) user body s
        = usecase command s)
   \<and> (create \<lparr> uws_organizationId = jwt_organizationId user,
             uws_environmentId = jwt_environmentId user,
             uws_notificationCenterEncryption =
               wreq_notificationCenterEncryption body \<rparr> = Inl e \<longrightarrow>
      updateWidgetSettings create usecase user body s = (Inl e, s))
   \<and> updateWidgetSettings
         (Inr :: UpdateWidgetSettingsCommand \<Rightarrow> 'e + UpdateWidgetSettingsCommand)
         (\<lambda>command s. (Inr command, s)) user body s =
       (Inr \<lparr> uws_organizationId = jwt_organizationId user,
              uws_environmentId = jwt_environmentId user,
              uws_notificationCenterEncryption =
                wreq_notificationCenterEncryption body \<rparr>, s)"
  by (simp add: updateWidgetSettings_def return_await_id)

text \<open>
  Session of environment \<^verbatim>\<open>E9\<close>, body \<^verbatim>\<open>{notificationCenterEncryption: true}\<close>.
\<close>

theorem widget_settings_handler_builds_command_witness:
  "updateWidgetSettings Inr
     (\<lambda>command s. (Inr (uws_environmentId command, uws_notificationCenterEncryption command),
        s))
     \<lparr> jwt_id = ''U1'', jwt_organizationId = ''O1'', jwt_environmentId = ''E9'' \<rparr>
     \<lparr> wreq_notificationCenterEncryption = True \<rparr>
     (0::nat)
   = (Inr (''E9'', True) :: string + string \<times> bool, 0)
   \<and> updateWidgetSettings (\<lambda>d. Inl ''rejected'')
     (\<lambda>command s. (Inr (uws_environmentId command, uws_notificationCenterEncryption command),
        Suc s))
     \<lparr> jwt_id = ''U1'', jwt_organizationId = ''O1'', jwt_environmentId = ''E9'' \<rparr>
     \<lparr> wreq_notificationCenterEncryption = True \<rparr>
     (0::nat)
   = (Inl ''rejected'' :: string + string \<times> bool, 0)"
  using widget_settings_handler_builds_command
    [where create =
         "Inr :: UpdateWidgetSettingsCommand \<Rightarrow> string + UpdateWidgetSettingsCommand"
       and usecase = "\<lambda>command s.
          (Inr (uws_environmentId command, uws_notificationCenterEncryption command), s)"
       and user = "\<lparr> jwt_id = ''U1'', jwt_organizationId = ''O1'', jwt_environmentId = ''E9'' \<rparr>"
       and body = "\<lparr> wreq_notificationCenterEncryption = True \<rparr>"
       and s = "0::nat"
       and e = "''none''"
       and command = "\<lparr> uws_organizationId = ''O1'', uws_environmentId = ''E9'',
                       uws_notificationCenterEncryption = True \<rparr>"]
    widget_settings_handler_builds_command
    [where create = "\<lambda>d. Inl ''rejected''"
       and usecase = "\<lambda>command s.
          (Inr (uws_environmentId command, uws_notificationCenterEncryption command), Suc s)"
       and user = "\<lparr> jwt_id = ''U1'', jwt_organizationId = ''O1'', jwt_environmentId = ''E9'' \<rparr>"
       and body = "\<lparr> wreq_notificationCenterEncryption = True \<rparr>"
       and s = "0::nat"
       and e = "''rejected''"
       and command = "\<lparr> uws_organizationId = ''O1'', uws_environmentId = ''E9'',
                       uws_notificationCenterEncryption = True \<rparr>"]
  by simp

end
